theory Spec2Isabelle
  imports Main
begin

section \<open>Schnorr signatures over a short Weierstrass curve (src/lib/signature.ts)\<close>

subsection \<open>The collaborators imported by signature.ts\<close>

text \<open>
  signature.ts imports \<open>Field\<close>, \<open>Bool\<close>, \<open>Scalar\<close> and \<open>Group\<close> from snarky.js and
  \<open>Poseidon\<close> from hash.js; neither file is among the sources. A \<open>Field\<close> and a
  \<open>Scalar\<close> are kept as the canonical residue of the element (an integer from 0 up to
  the modulus), a \<open>Bool\<close> as a \<open>bool\<close>, and a \<open>Group\<close> element as the pair of its affine
  coordinates, the way the source builds one (\<open>new Group(x, y)\<close>) and takes one apart
  (\<open>{ x, y }: Group\<close>).
\<close>

type_synonym Field = int
type_synonym Scalar = int

record Group =
  Group_x :: Field
  Group_y :: Field

text \<open>
  What signature.ts takes from its imports and does not define: the two moduli, the width
  of a bit decomposition, the square root, the generator and the group operations, and the
  hash. They are the parameters of every function below. The square root is the one
  operation that the spec lets fail: a root that does not exist is \<open>None\<close>. The group
  operations and the hash are total, as the interface gives them.
\<close>

record snarky =
  Field_modulus :: int
  Field_sizeInBits :: nat
  Field_sqrt :: "Field \<Rightarrow> Field option"
  Scalar_modulus :: int
  Group_generator :: Group
  Group_scale :: "Group \<Rightarrow> Scalar \<Rightarrow> Group"
  Group_add :: "Group \<Rightarrow> Group \<Rightarrow> Group"
  Group_neg :: "Group \<Rightarrow> Group"
  Poseidon_hash :: "Field list \<Rightarrow> Field"

datatype error = InvalidPoint

text \<open>
  Modelled from the spec: the class \<open>Field\<close> (snarky.js) is not among the sources. The spec
  gives it as finite-field arithmetic; \<open>Field(n)\<close>, \<open>add\<close>, \<open>mul\<close>, \<open>neg\<close> and \<open>isZero\<close> are
  arithmetic modulo the field modulus on canonical residues.
\<close>

definition Field_of :: "snarky \<Rightarrow> int \<Rightarrow> Field" where
  "Field_of E n = n mod Field_modulus E"

definition Field_add :: "snarky \<Rightarrow> Field \<Rightarrow> Field \<Rightarrow> Field" where
  "Field_add E a b = (a + b) mod Field_modulus E"

definition Field_mul :: "snarky \<Rightarrow> Field \<Rightarrow> Field \<Rightarrow> Field" where
  "Field_mul E a b = (a * b) mod Field_modulus E"

definition Field_neg :: "snarky \<Rightarrow> Field \<Rightarrow> Field" where
  "Field_neg E a = (- a) mod Field_modulus E"


text \<open>
  Modelled from the spec: \<open>Field.toBits\<close> (snarky.js) is the bit decomposition of the
  canonical residue, least significant bit first, so that index 0 is the low bit.
\<close>

definition Field_toBits :: "snarky \<Rightarrow> Field \<Rightarrow> bool list" where
  "Field_toBits E a = map (bit a) [0..<Field_sizeInBits E]"

text \<open>Modelled from the spec: \<open>Bool.toField\<close> (snarky.js) sends true to 1 and false to 0.\<close>

definition Bool_toField :: "bool \<Rightarrow> Field" where
  "Bool_toField b = (if b then 1 else 0)"

text \<open>
  Modelled from the spec: the class \<open>Scalar\<close> (snarky.js) is arithmetic modulo the order of
  the group; \<open>Scalar.fromBits\<close> reads a list of bits, least significant first, as a scalar.
\<close>

definition Scalar_fromBits :: "snarky \<Rightarrow> bool list \<Rightarrow> Scalar" where
  "Scalar_fromBits E bs = horner_sum of_bool 2 bs mod Scalar_modulus E"

definition Scalar_add :: "snarky \<Rightarrow> Scalar \<Rightarrow> Scalar \<Rightarrow> Scalar" where
  "Scalar_add E a b = (a + b) mod Scalar_modulus E"

definition Scalar_mul :: "snarky \<Rightarrow> Scalar \<Rightarrow> Scalar \<Rightarrow> Scalar" where
  "Scalar_mul E a b = (a * b) mod Scalar_modulus E"

definition Scalar_neg :: "snarky \<Rightarrow> Scalar \<Rightarrow> Scalar" where
  "Scalar_neg E a = (- a) mod Scalar_modulus E"

subsection \<open>The classes of signature.ts\<close>

record PrivateKey =
  PrivateKey_s :: Scalar

record PublicKey =
  PublicKey_x :: Field
  PublicKey_isOdd :: bool

record Signature =
  Signature_r :: Field
  Signature_s :: Scalar

text \<open>\<open>PublicKey.toGroup\<close>: the only place that can raise is the square root.\<close>

definition toGroup :: "snarky \<Rightarrow> PublicKey \<Rightarrow> error + Group" where
  "toGroup E this =
     (let x = PublicKey_x this;
          isOdd = PublicKey_isOdd this;
          ySquared = Field_add E (Field_mul E (Field_mul E x x) x) (Field_of E 5)
      in case Field_sqrt E ySquared of
           None \<Rightarrow> Inl InvalidPoint
         | Some someY \<Rightarrow>
             let isTheRightY = (isOdd = Field_toBits E someY ! 0);
                 y = Field_add E
                       (Field_mul E (Bool_toField isTheRightY) someY)
                       (Field_mul E (Bool_toField (\<not> isTheRightY)) (Field_neg E someY))
             in Inr \<lparr>Group_x = x, Group_y = y\<rparr>)"

text \<open>\<open>PublicKey.fromGroup\<close>, \<open>PublicKey.fromPrivateKey\<close>, \<open>PrivateKey.toPublicKey\<close>.\<close>

definition fromGroup :: "snarky \<Rightarrow> Group \<Rightarrow> PublicKey" where
  "fromGroup E g =
     (let isOdd = Field_toBits E (Group_y g) ! 0
      in \<lparr>PublicKey_x = Group_x g, PublicKey_isOdd = isOdd\<rparr>)"

definition fromPrivateKey :: "snarky \<Rightarrow> PrivateKey \<Rightarrow> PublicKey" where
  "fromPrivateKey E priv = fromGroup E (Group_scale E (Group_generator E) (PrivateKey_s priv))"


text \<open>\<open>PublicKey.from\<close>, \<open>PublicKey.empty\<close>, \<open>PublicKey.isEmpty\<close>.\<close>

definition PublicKey_from :: "Field \<Rightarrow> bool \<Rightarrow> PublicKey" where
  "PublicKey_from x isOdd = \<lparr>PublicKey_x = x, PublicKey_isOdd = isOdd\<rparr>"



text \<open>
  \<open>Signature.create\<close>. The value that \<open>Scalar.random()\<close> returns is the argument
  \<open>kPrime\<close>; the public key is decompressed first, so a failure there comes before the
  nonce is used.
\<close>

definition create :: "snarky \<Rightarrow> PrivateKey \<Rightarrow> Field list \<Rightarrow> Scalar \<Rightarrow> error + Signature" where
  "create E privKey msg kPrime =
     (case toGroup E (fromPrivateKey E privKey) of
        Inl err \<Rightarrow> Inl err
      | Inr publicKey \<Rightarrow>
          let d = PrivateKey_s privKey;
              R = Group_scale E (Group_generator E) kPrime;
              r = Group_x R;
              ry = Group_y R;
              k = (if Field_toBits E ry ! 0 then Scalar_neg E kPrime else kPrime);
              e = Scalar_fromBits E
                    (Field_toBits E
                       (Poseidon_hash E (msg @ [Group_x publicKey, Group_y publicKey, r])));
              s = Scalar_add E (Scalar_mul E e d) k
          in Inr \<lparr>Signature_r = r, Signature_s = s\<rparr>)"

text \<open>\<open>Signature.verify\<close>.\<close>

definition verify :: "snarky \<Rightarrow> Signature \<Rightarrow> PublicKey \<Rightarrow> Field list \<Rightarrow> error + bool" where
  "verify E this publicKey msg =
     (case toGroup E publicKey of
        Inl err \<Rightarrow> Inl err
      | Inr point \<Rightarrow>
          let e = Scalar_fromBits E
                    (Field_toBits E
                       (Poseidon_hash E
                          (msg @ [Group_x point, Group_y point, Signature_r this])));
              r = Group_add E (Group_neg E (Group_scale E point e))
                    (Group_scale E (Group_generator E) (Signature_s this))
          in Inr (Group_x r = Signature_r this \<and> (Field_toBits E (Group_y r) ! 0 = False)))"

subsection \<open>What the functions rely on in their collaborators\<close>

text \<open>
  The field modulus is an odd prime, and \<open>toBits\<close> is wide enough for every element.
\<close>

definition prime_modulus :: "int \<Rightarrow> bool" where
  "prime_modulus p \<longleftrightarrow> 1 < p \<and> (\<forall>d\<in>{2..<p}. \<not> d dvd p)"

definition Field_ok :: "snarky \<Rightarrow> bool" where
  "Field_ok E \<longleftrightarrow>
     prime_modulus (Field_modulus E) \<and> odd (Field_modulus E) \<and>
     Field_modulus E \<le> 2 ^ Field_sizeInBits E"

text \<open>
  Modelled from the spec: \<open>Field.sqrt\<close> (snarky.js) is not among the sources. The spec
  gives it as the field's square root, which fails when its argument is not a quadratic
  residue: on an element with a root it returns one of the roots, in canonical form, and
  on an element with none it raises, which is \<open>None\<close> here.
\<close>

definition sqrt_ok :: "snarky \<Rightarrow> bool" where
  "sqrt_ok E \<longleftrightarrow>
     (\<forall>a\<in>{0..<Field_modulus E}.
        case Field_sqrt E a of
          None \<Rightarrow> \<forall>r\<in>{0..<Field_modulus E}. r * r mod Field_modulus E \<noteq> a
        | Some r \<Rightarrow> 0 \<le> r \<and> r < Field_modulus E \<and> r * r mod Field_modulus E = a)"

text \<open>A point of the curve \<open>y\<^sup>2 = x\<^sup>3 + 5\<close>, with canonical coordinates.\<close>

definition on_curve :: "snarky \<Rightarrow> Group \<Rightarrow> bool" where
  "on_curve E g \<longleftrightarrow>
     0 \<le> Group_x g \<and> Group_x g < Field_modulus E \<and>
     0 \<le> Group_y g \<and> Group_y g < Field_modulus E \<and>
     Group_y g * Group_y g mod Field_modulus E =
       (Group_x g * Group_x g * Group_x g + 5) mod Field_modulus E"

text \<open>
  The curve has no point with \<open>y = 0\<close> (its group has odd order) and no point with
  \<open>x = 0\<close> (the comment in \<open>isEmpty\<close>: 5 is not a square of the field).
\<close>

definition Curve_ok :: "snarky \<Rightarrow> bool" where
  "Curve_ok E \<longleftrightarrow>
     (\<forall>x\<in>{0..<Field_modulus E}. (x * x * x + 5) mod Field_modulus E \<noteq> 0) \<and>
     (\<forall>y\<in>{0..<Field_modulus E}. y * y mod Field_modulus E \<noteq> 5 mod Field_modulus E)"

text \<open>
  The group operations on the multiples of the generator: a multiple by a non-zero scalar
  is a point of the curve, scaling is additive and multiplicative in the scalar, and
  negation negates the scalar and, on a point, the \<open>y\<close> coordinate.
\<close>

definition Group_ok :: "snarky \<Rightarrow> bool" where
  "Group_ok E \<longleftrightarrow>
     0 < Scalar_modulus E \<and>
     (\<forall>k\<in>{1..<Scalar_modulus E}. on_curve E (Group_scale E (Group_generator E) k)) \<and>
     (\<forall>a\<in>{0..<Scalar_modulus E}. \<forall>b\<in>{0..<Scalar_modulus E}.
        Group_add E (Group_scale E (Group_generator E) a) (Group_scale E (Group_generator E) b) =
        Group_scale E (Group_generator E) ((a + b) mod Scalar_modulus E)) \<and>
     (\<forall>d\<in>{0..<Scalar_modulus E}. \<forall>e\<in>{0..<Scalar_modulus E}.
        Group_scale E (Group_scale E (Group_generator E) d) e =
        Group_scale E (Group_generator E) ((e * d) mod Scalar_modulus E)) \<and>
     (\<forall>k\<in>{0..<Scalar_modulus E}.
        Group_neg E (Group_scale E (Group_generator E) k) =
        Group_scale E (Group_generator E) ((- k) mod Scalar_modulus E)) \<and>
     (\<forall>k\<in>{1..<Scalar_modulus E}.
        Group_neg E (Group_scale E (Group_generator E) k) =
        \<lparr>Group_x = Group_x (Group_scale E (Group_generator E) k),
         Group_y = (- Group_y (Group_scale E (Group_generator E) k)) mod Field_modulus E\<rparr>)"


subsection \<open>A small instance of the collaborators\<close>

text \<open>
  The curve \<open>y\<^sup>2 = x\<^sup>3 + 5\<close> over the integers modulo 43, with the chord and tangent
  law on affine points and \<open>(0, 0)\<close>, which is not on the curve, for the neutral element.
  The point \<open>(1, 7)\<close> has order 7, so scalars are taken modulo 7. As in the field of the
  source, 5 is not a square and \<open>-5\<close> is not a cube. The square root is the least root,
  and the hash is a stand-in.
\<close>

definition inv_mod :: "int \<Rightarrow> int \<Rightarrow> int" where
  "inv_mod p a = a ^ nat (p - 2) mod p"

definition affine_neg :: "int \<Rightarrow> Group \<Rightarrow> Group" where
  "affine_neg p P = \<lparr>Group_x = Group_x P, Group_y = (- Group_y P) mod p\<rparr>"

definition affine_add :: "int \<Rightarrow> Group \<Rightarrow> Group \<Rightarrow> Group" where
  "affine_add p P Q =
     (let zero = \<lparr>Group_x = 0, Group_y = 0\<rparr>
      in if P = zero then Q
         else if Q = zero then P
         else if Group_x P = Group_x Q \<and> (Group_y P + Group_y Q) mod p = 0 then zero
         else
           let l = (if Group_x P = Group_x Q
                    then 3 * Group_x P * Group_x P * inv_mod p (2 * Group_y P mod p)
                    else (Group_y Q - Group_y P) * inv_mod p ((Group_x Q - Group_x P) mod p)) mod p;
               x3 = (l * l - Group_x P - Group_x Q) mod p;
               y3 = (l * (Group_x P - x3) - Group_y P) mod p
           in \<lparr>Group_x = x3, Group_y = y3\<rparr>)"

fun scale_nat :: "int \<Rightarrow> Group \<Rightarrow> nat \<Rightarrow> Group" where
  "scale_nat p P 0 = \<lparr>Group_x = 0, Group_y = 0\<rparr>"
| "scale_nat p P (Suc n) = affine_add p P (scale_nat p P n)"

definition affine_scale :: "int \<Rightarrow> Group \<Rightarrow> Scalar \<Rightarrow> Group" where
  "affine_scale p P k = scale_nat p P (nat k)"

definition least_sqrt :: "int \<Rightarrow> Field \<Rightarrow> Field option" where
  "least_sqrt p a = find (\<lambda>r. r * r mod p = a) [0..p - 1]"

definition small_hash :: "int \<Rightarrow> Field list \<Rightarrow> Field" where
  "small_hash p xs = foldl (\<lambda>h a. (h * h * h + a + 1) mod p) 0 xs"

definition E43 :: snarky where
  "E43 = \<lparr>Field_modulus = 43, Field_sizeInBits = 6, Field_sqrt = least_sqrt 43,
          Scalar_modulus = 7, Group_generator = \<lparr>Group_x = 1, Group_y = 7\<rparr>,
          Group_scale = affine_scale 43, Group_add = affine_add 43,
          Group_neg = affine_neg 43, Poseidon_hash = small_hash 43\<rparr>"

section \<open>Facts about the collaborators\<close>

subsection \<open>Consequences of the assumptions\<close>

lemma Field_ok_bits: "Field_ok E \<Longrightarrow> 0 < Field_sizeInBits E"
  unfolding Field_ok_def prime_modulus_def
  by (cases "Field_sizeInBits E = 0") auto

lemma Field_ok_gt1: "Field_ok E \<Longrightarrow> 1 < Field_modulus E"
  unfolding Field_ok_def prime_modulus_def by simp

lemma toBits_low: "0 < Field_sizeInBits E \<Longrightarrow> Field_toBits E a ! 0 = odd a"
  by (simp add: Field_toBits_def bit_0)

lemma ySquared_eq:
  "Field_add E (Field_mul E (Field_mul E x x) x) (Field_of E 5) =
   (x * x * x + 5) mod Field_modulus E"
  by (simp add: Field_add_def Field_mul_def Field_of_def mod_simps)

text \<open>
  A prime modulus divides a product only when it divides a factor.
\<close>

lemma prime_modulus_dvd_mult:
  assumes p: "prime_modulus p" and d: "p dvd a * b"
  shows "p dvd a \<or> p dvd b"
proof (cases "p dvd a")
  case True
  then show ?thesis by simp
next
  case False
  from p have p1: "1 < p" and nd: "\<And>d. 2 \<le> d \<Longrightarrow> d < p \<Longrightarrow> \<not> d dvd p"
    by (auto simp: prime_modulus_def)
  let ?g = "gcd p a"
  have g0: "0 \<le> ?g" by simp
  have gp: "?g dvd p" by simp
  have gne: "?g \<noteq> 0" using p1 by simp
  have gle: "?g \<le> p" using gp p1 by (simp add: zdvd_imp_le)
  have "?g \<noteq> p" using False by (metis gcd_dvd2)
  with gle have glt: "?g < p" by simp
  have "\<not> 2 \<le> ?g" using nd [of ?g] glt gp by blast
  with g0 gne have "?g = 1" by linarith
  then have "coprime p a" by (simp add: coprime_iff_gcd_eq_1)
  with d have "p dvd b" by (simp add: coprime_dvd_mult_right_iff)
  then show ?thesis by simp
qed

text \<open>
  In a prime field an element has at most the two square roots \<open>y\<close> and \<open>-y\<close>.
\<close>

lemma square_roots:
  assumes p: "prime_modulus p"
    and y: "0 \<le> y" "y < p" and z: "0 \<le> z" "z < p"
    and eq: "z * z mod p = y * y mod p"
  shows "z = y \<or> z = (- y) mod p"
proof -
  have "p dvd z * z - y * y" using eq by (simp add: mod_eq_dvd_iff)
  moreover have "z * z - y * y = (z - y) * (z + y)" by (simp add: algebra_simps)
  ultimately have "p dvd (z - y) * (z + y)" by simp
  then have "p dvd z - y \<or> p dvd z + y" using prime_modulus_dvd_mult [OF p] by blast
  then show ?thesis
  proof
    assume "p dvd z - y"
    then have "z mod p = y mod p" by (simp add: mod_eq_dvd_iff)
    then have "z = y" using y z by simp
    then show ?thesis by simp
  next
    assume "p dvd z + y"
    then have "p dvd z - (- y)" by simp
    then have "z mod p = (- y) mod p" by (simp only: mod_eq_dvd_iff)
    then have "z = (- y) mod p" using z by simp
    then show ?thesis by simp
  qed
qed

text \<open>
  The modulus is odd, so negating a non-zero residue flips its low bit.
\<close>

lemma neg_mod_parity:
  assumes "odd p" "0 < y" "y < p"
  shows "odd ((- y) mod p) \<longleftrightarrow> even (y::int)"
proof -
  have "(- y) mod p = p - y" using assms by (simp add: zmod_zminus1_eq_if)
  then show ?thesis using assms by simp
qed

lemma toGroup_Some:
  assumes s: "Field_sqrt E ((PublicKey_x pk * PublicKey_x pk * PublicKey_x pk + 5) mod Field_modulus E) = Some z"
    and z: "0 \<le> z" "z < Field_modulus E" and n: "0 < Field_sizeInBits E"
  shows "toGroup E pk =
         Inr \<lparr>Group_x = PublicKey_x pk,
              Group_y = (if PublicKey_isOdd pk = odd z then z else (- z) mod Field_modulus E)\<rparr>"
  unfolding toGroup_def Let_def ySquared_eq
  using s z
  by (simp add: toBits_low [OF n] Bool_toField_def Field_add_def Field_mul_def Field_neg_def)

lemma toGroup_None:
  "Field_sqrt E ((PublicKey_x pk * PublicKey_x pk * PublicKey_x pk + 5) mod Field_modulus E) = None
   \<Longrightarrow> toGroup E pk = Inl InvalidPoint"
  unfolding toGroup_def Let_def ySquared_eq by simp

lemma sqrt_ok_Some:
  assumes "sqrt_ok E" and "0 \<le> a" and "a < Field_modulus E" and "Field_sqrt E a = Some r"
  shows "0 \<le> r \<and> r < Field_modulus E \<and> r * r mod Field_modulus E = a"
proof -
  have "a \<in> {0..<Field_modulus E}" using assms(2,3) by simp
  from bspec [OF assms(1) [unfolded sqrt_ok_def] this] assms(4) show ?thesis by simp
qed

lemma sqrt_ok_None:
  assumes "sqrt_ok E" and "0 \<le> a" and "a < Field_modulus E" and "Field_sqrt E a = None"
    and "0 \<le> r" and "r < Field_modulus E"
  shows "r * r mod Field_modulus E \<noteq> a"
proof -
  have "a \<in> {0..<Field_modulus E}" using assms(2,3) by simp
  from bspec [OF assms(1) [unfolded sqrt_ok_def] this] assms(4)
  have "\<forall>r\<in>{0..<Field_modulus E}. r * r mod Field_modulus E \<noteq> a" by simp
  moreover have "r \<in> {0..<Field_modulus E}" using assms(5,6) by simp
  ultimately show ?thesis by (rule bspec)
qed

text \<open>
  Decompressing the compression of a point of the curve gives the point back.
\<close>

lemma toGroup_fromGroup:
  assumes F: "Field_ok E" and S: "sqrt_ok E" and P: "on_curve E P"
  shows "toGroup E (fromGroup E P) = Inr P"
proof -
  let ?p = "Field_modulus E"
  let ?a = "(Group_x P * Group_x P * Group_x P + 5) mod ?p"
  from F have p1: "1 < ?p" by (rule Field_ok_gt1)
  from F have n: "0 < Field_sizeInBits E" by (rule Field_ok_bits)
  from F have pr: "prime_modulus ?p" and od: "odd ?p" by (simp_all add: Field_ok_def)
  from P have y: "0 \<le> Group_y P" "Group_y P < ?p" and yy: "Group_y P * Group_y P mod ?p = ?a"
    by (simp_all add: on_curve_def)
  have a: "0 \<le> ?a" "?a < ?p" using p1 by simp_all
  obtain z where z: "Field_sqrt E ?a = Some z"
    using sqrt_ok_None [OF S a _ y] yy by (cases "Field_sqrt E ?a") auto
  from sqrt_ok_Some [OF S a z] have zr: "0 \<le> z" "z < ?p" and zz: "z * z mod ?p = ?a" by simp_all
  have pk: "PublicKey_x (fromGroup E P) = Group_x P" "PublicKey_isOdd (fromGroup E P) = odd (Group_y P)"
    by (simp_all add: fromGroup_def Let_def toBits_low [OF n])
  have tg: "toGroup E (fromGroup E P) =
        Inr \<lparr>Group_x = Group_x P,
             Group_y = (if odd (Group_y P) = odd z then z else (- z) mod ?p)\<rparr>"
    using toGroup_Some [of E "fromGroup E P" z] z zr n by (simp add: pk)
  from square_roots [OF pr y zr] zz yy have cases: "z = Group_y P \<or> z = (- Group_y P) mod ?p"
    by simp
  have "(if odd (Group_y P) = odd z then z else (- z) mod ?p) = Group_y P"
  proof (cases "z = Group_y P")
    case True
    then show ?thesis by simp
  next
    case False
    with cases have zn: "z = (- Group_y P) mod ?p" by simp
    have ypos: "0 < Group_y P" using False zn y by (cases "Group_y P = 0") auto
    have par: "odd z \<longleftrightarrow> even (Group_y P)" unfolding zn using od ypos y(2) by (rule neg_mod_parity)
    have "(- z) mod ?p = Group_y P" unfolding zn using y p1 by (simp add: mod_minus_eq)
    with par show ?thesis by auto
  qed
  with tg show ?thesis by simp
qed


lemma Group_ok_on_curve:
  assumes "Group_ok E" and "1 \<le> k" and "k < Scalar_modulus E"
  shows "on_curve E (Group_scale E (Group_generator E) k)"
proof -
  have k: "k \<in> {1..<Scalar_modulus E}" using assms(2,3) by simp
  have "\<forall>k\<in>{1..<Scalar_modulus E}. on_curve E (Group_scale E (Group_generator E) k)"
    using assms(1) unfolding Group_ok_def by (elim conjE) assumption
  from bspec [OF this k] show ?thesis .
qed



lemma Group_ok_neg:
  assumes "Group_ok E" and "0 \<le> k" and "k < Scalar_modulus E"
  shows "Group_neg E (Group_scale E (Group_generator E) k) =
         Group_scale E (Group_generator E) ((- k) mod Scalar_modulus E)"
proof -
  have k: "k \<in> {0..<Scalar_modulus E}" using assms(2,3) by simp
  have "\<forall>k\<in>{0..<Scalar_modulus E}.
        Group_neg E (Group_scale E (Group_generator E) k) =
        Group_scale E (Group_generator E) ((- k) mod Scalar_modulus E)"
    using assms(1) unfolding Group_ok_def by (elim conjE) assumption
  from bspec [OF this k] show ?thesis .
qed

lemma Group_ok_neg_y:
  assumes "Group_ok E" and "1 \<le> k" and "k < Scalar_modulus E"
  shows "Group_neg E (Group_scale E (Group_generator E) k) =
         \<lparr>Group_x = Group_x (Group_scale E (Group_generator E) k),
          Group_y = (- Group_y (Group_scale E (Group_generator E) k)) mod Field_modulus E\<rparr>"
proof -
  have k: "k \<in> {1..<Scalar_modulus E}" using assms(2,3) by simp
  have "\<forall>k\<in>{1..<Scalar_modulus E}.
        Group_neg E (Group_scale E (Group_generator E) k) =
        \<lparr>Group_x = Group_x (Group_scale E (Group_generator E) k),
         Group_y = (- Group_y (Group_scale E (Group_generator E) k)) mod Field_modulus E\<rparr>"
    using assms(1) unfolding Group_ok_def by (elim conjE) assumption
  from bspec [OF this k] show ?thesis .
qed





lemma root_gives_Some:
  assumes F: "Field_ok E" and S: "sqrt_ok E"
    and r: "\<exists>r\<in>{0..<Field_modulus E}. r * r mod Field_modulus E = (x * x * x + 5) mod Field_modulus E"
  shows "\<exists>z. Field_sqrt E ((x * x * x + 5) mod Field_modulus E) = Some z \<and>
             0 \<le> z \<and> z < Field_modulus E \<and>
             z * z mod Field_modulus E = (x * x * x + 5) mod Field_modulus E"
proof -
  let ?p = "Field_modulus E"
  let ?a = "(x * x * x + 5) mod ?p"
  from F have p1: "1 < ?p" by (rule Field_ok_gt1)
  have a: "0 \<le> ?a" "?a < ?p" using p1 by simp_all
  from r obtain r where r: "0 \<le> r" "r < ?p" "r * r mod ?p = ?a" by auto
  have "Field_sqrt E ?a \<noteq> None"
    using sqrt_ok_None [OF S a _ r(1,2)] r(3) by blast
  then obtain z where z: "Field_sqrt E ?a = Some z" by blast
  from sqrt_ok_Some [OF S a z] z show ?thesis by blast
qed


lemma toGroup_returns_curve_point:
  assumes F: "Field_ok E" and S: "sqrt_ok E"
    and x: "0 \<le> PublicKey_x pk" "PublicKey_x pk < Field_modulus E"
    and g: "toGroup E pk = Inr g"
  shows "on_curve E g"
proof (cases "Field_sqrt E ((PublicKey_x pk * PublicKey_x pk * PublicKey_x pk + 5) mod Field_modulus E)")
  case None
  from toGroup_None [OF None] g show ?thesis by simp
next
  case (Some z)
  let ?p = "Field_modulus E"
  let ?a = "(PublicKey_x pk * PublicKey_x pk * PublicKey_x pk + 5) mod ?p"
  from F have p1: "1 < ?p" by (rule Field_ok_gt1)
  have a: "0 \<le> ?a" "?a < ?p" using p1 by simp_all
  have n: "0 < Field_sizeInBits E" using F by (rule Field_ok_bits)
  from sqrt_ok_Some [OF S a Some] have z: "0 \<le> z" "z < ?p" "z * z mod ?p = ?a" by simp_all
  have "((- z) mod ?p) * ((- z) mod ?p) mod ?p = (- z) * (- z) mod ?p"
    by (rule mod_mult_eq)
  then have neg: "((- z) mod ?p) * ((- z) mod ?p) mod ?p = ?a"
    using z(3) by simp
  from toGroup_Some [OF Some z(1,2) n] g
  have "g = \<lparr>Group_x = PublicKey_x pk,
             Group_y = (if PublicKey_isOdd pk = odd z then z else (- z) mod ?p)\<rparr>" by simp
  then show ?thesis using x z neg p1 by (simp add: on_curve_def)
qed

text \<open>
  The zero scalar is sent to the neutral element of the group. However the collaborators
  represent it, it is not a point of the curve, so decompressing the derived key never
  gives it back: \<open>create\<close> then either raises or signs for a point that is not the derived
  one.
\<close>

lemma zero_scalar_key_not_recovered:
  assumes F: "Field_ok E" and S: "sqrt_ok E"
    and x: "0 \<le> Group_x (Group_scale E (Group_generator E) 0)"
      "Group_x (Group_scale E (Group_generator E) 0) < Field_modulus E"
    and off: "\<not> on_curve E (Group_scale E (Group_generator E) 0)"
  shows "toGroup E (fromPrivateKey E \<lparr>PrivateKey_s = 0\<rparr>) \<noteq>
         Inr (Group_scale E (Group_generator E) 0)"
proof
  assume "toGroup E (fromPrivateKey E \<lparr>PrivateKey_s = 0\<rparr>) =
          Inr (Group_scale E (Group_generator E) 0)"
  moreover have "PublicKey_x (fromPrivateKey E \<lparr>PrivateKey_s = 0\<rparr>) =
      Group_x (Group_scale E (Group_generator E) 0)"
    by (simp add: fromPrivateKey_def fromGroup_def Let_def)
  ultimately have "on_curve E (Group_scale E (Group_generator E) 0)"
    using toGroup_returns_curve_point [OF F S, of "fromPrivateKey E \<lparr>PrivateKey_s = 0\<rparr>"] x
    by simp
  with off show False by simp
qed

subsection \<open>The small instance satisfies the assumptions\<close>

text \<open>
  Bounded quantifiers over an interval of integers, as tests of a list.
\<close>

lemma Ball_int_range: "(\<forall>x\<in>{a..<b::int}. P x) \<longleftrightarrow> list_all P [a..b - 1]"
  by (auto simp: list_all_iff)

lemma Bex_int_range: "(\<exists>x\<in>{a..<b::int}. P x) \<longleftrightarrow> list_ex P [a..b - 1]"
  by (auto simp: list_ex_iff)

lemma E43_Field_ok: "Field_ok E43"
  unfolding Field_ok_def prime_modulus_def Ball_int_range by code_simp

lemma E43_sqrt_ok: "sqrt_ok E43"
  unfolding sqrt_ok_def Ball_int_range by code_simp

lemma E43_Curve_ok: "Curve_ok E43"
  unfolding Curve_ok_def Ball_int_range by code_simp

lemma E43_sel:
  "Field_modulus E43 = 43" "Scalar_modulus E43 = 7"
  "Group_generator E43 = \<lparr>Group_x = 1, Group_y = 7\<rparr>"
  "Group_scale E43 = affine_scale 43" "Group_add E43 = affine_add 43"
  "Group_neg E43 = affine_neg 43"
  by (simp_all add: E43_def)

lemma E43_scale:
  "affine_scale 43 \<lparr>Group_x = 1, Group_y = 7\<rparr> 0 = \<lparr>Group_x = 0, Group_y = 0\<rparr>"
  "affine_scale 43 \<lparr>Group_x = 1, Group_y = 7\<rparr> 1 = \<lparr>Group_x = 1, Group_y = 7\<rparr>"
  "affine_scale 43 \<lparr>Group_x = 1, Group_y = 7\<rparr> 2 = \<lparr>Group_x = 36, Group_y = 7\<rparr>"
  "affine_scale 43 \<lparr>Group_x = 1, Group_y = 7\<rparr> 3 = \<lparr>Group_x = 6, Group_y = 36\<rparr>"
  "affine_scale 43 \<lparr>Group_x = 1, Group_y = 7\<rparr> 4 = \<lparr>Group_x = 6, Group_y = 7\<rparr>"
  "affine_scale 43 \<lparr>Group_x = 1, Group_y = 7\<rparr> 5 = \<lparr>Group_x = 36, Group_y = 36\<rparr>"
  "affine_scale 43 \<lparr>Group_x = 1, Group_y = 7\<rparr> 6 = \<lparr>Group_x = 1, Group_y = 36\<rparr>"
  by code_simp+

lemma int_range_7:
  "{0..<7::int} = {0, 1, 2, 3, 4, 5, 6}" "{1..<7::int} = {1, 2, 3, 4, 5, 6}"
  by auto

lemma E43_G1: "\<forall>k\<in>{1..<Scalar_modulus E43}. on_curve E43 (Group_scale E43 (Group_generator E43) k)"
  by (simp add: E43_sel int_range_7 E43_scale on_curve_def)

lemma E43_G5: "\<forall>k\<in>{0..<Scalar_modulus E43}.
        Group_neg E43 (Group_scale E43 (Group_generator E43) k) =
        Group_scale E43 (Group_generator E43) ((- k) mod Scalar_modulus E43)"
  by (simp add: E43_sel int_range_7 E43_scale affine_neg_def)

lemma E43_G6: "\<forall>k\<in>{1..<Scalar_modulus E43}.
        Group_neg E43 (Group_scale E43 (Group_generator E43) k) =
        \<lparr>Group_x = Group_x (Group_scale E43 (Group_generator E43) k),
         Group_y = (- Group_y (Group_scale E43 (Group_generator E43) k)) mod Field_modulus E43\<rparr>"
  by (simp add: E43_sel int_range_7 E43_scale affine_neg_def)

text \<open>
  The addition table of the seven multiples of the generator.
\<close>

lemma E43_add:
  "affine_add 43 \<lparr>Group_x = 0, Group_y = 0\<rparr> \<lparr>Group_x = 0, Group_y = 0\<rparr> = \<lparr>Group_x = 0, Group_y = 0\<rparr>"
  "affine_add 43 \<lparr>Group_x = 0, Group_y = 0\<rparr> \<lparr>Group_x = 1, Group_y = 7\<rparr> = \<lparr>Group_x = 1, Group_y = 7\<rparr>"
  "affine_add 43 \<lparr>Group_x = 0, Group_y = 0\<rparr> \<lparr>Group_x = 36, Group_y = 7\<rparr> = \<lparr>Group_x = 36, Group_y = 7\<rparr>"
  "affine_add 43 \<lparr>Group_x = 0, Group_y = 0\<rparr> \<lparr>Group_x = 6, Group_y = 36\<rparr> = \<lparr>Group_x = 6, Group_y = 36\<rparr>"
  "affine_add 43 \<lparr>Group_x = 0, Group_y = 0\<rparr> \<lparr>Group_x = 6, Group_y = 7\<rparr> = \<lparr>Group_x = 6, Group_y = 7\<rparr>"
  "affine_add 43 \<lparr>Group_x = 0, Group_y = 0\<rparr> \<lparr>Group_x = 36, Group_y = 36\<rparr> = \<lparr>Group_x = 36, Group_y = 36\<rparr>"
  "affine_add 43 \<lparr>Group_x = 0, Group_y = 0\<rparr> \<lparr>Group_x = 1, Group_y = 36\<rparr> = \<lparr>Group_x = 1, Group_y = 36\<rparr>"
  "affine_add 43 \<lparr>Group_x = 1, Group_y = 7\<rparr> \<lparr>Group_x = 0, Group_y = 0\<rparr> = \<lparr>Group_x = 1, Group_y = 7\<rparr>"
  "affine_add 43 \<lparr>Group_x = 1, Group_y = 7\<rparr> \<lparr>Group_x = 1, Group_y = 7\<rparr> = \<lparr>Group_x = 36, Group_y = 7\<rparr>"
  "affine_add 43 \<lparr>Group_x = 1, Group_y = 7\<rparr> \<lparr>Group_x = 36, Group_y = 7\<rparr> = \<lparr>Group_x = 6, Group_y = 36\<rparr>"
  "affine_add 43 \<lparr>Group_x = 1, Group_y = 7\<rparr> \<lparr>Group_x = 6, Group_y = 36\<rparr> = \<lparr>Group_x = 6, Group_y = 7\<rparr>"
  "affine_add 43 \<lparr>Group_x = 1, Group_y = 7\<rparr> \<lparr>Group_x = 6, Group_y = 7\<rparr> = \<lparr>Group_x = 36, Group_y = 36\<rparr>"
  "affine_add 43 \<lparr>Group_x = 1, Group_y = 7\<rparr> \<lparr>Group_x = 36, Group_y = 36\<rparr> = \<lparr>Group_x = 1, Group_y = 36\<rparr>"
  "affine_add 43 \<lparr>Group_x = 1, Group_y = 7\<rparr> \<lparr>Group_x = 1, Group_y = 36\<rparr> = \<lparr>Group_x = 0, Group_y = 0\<rparr>"
  "affine_add 43 \<lparr>Group_x = 36, Group_y = 7\<rparr> \<lparr>Group_x = 0, Group_y = 0\<rparr> = \<lparr>Group_x = 36, Group_y = 7\<rparr>"
  "affine_add 43 \<lparr>Group_x = 36, Group_y = 7\<rparr> \<lparr>Group_x = 1, Group_y = 7\<rparr> = \<lparr>Group_x = 6, Group_y = 36\<rparr>"
  "affine_add 43 \<lparr>Group_x = 36, Group_y = 7\<rparr> \<lparr>Group_x = 36, Group_y = 7\<rparr> = \<lparr>Group_x = 6, Group_y = 7\<rparr>"
  "affine_add 43 \<lparr>Group_x = 36, Group_y = 7\<rparr> \<lparr>Group_x = 6, Group_y = 36\<rparr> = \<lparr>Group_x = 36, Group_y = 36\<rparr>"
  "affine_add 43 \<lparr>Group_x = 36, Group_y = 7\<rparr> \<lparr>Group_x = 6, Group_y = 7\<rparr> = \<lparr>Group_x = 1, Group_y = 36\<rparr>"
  "affine_add 43 \<lparr>Group_x = 36, Group_y = 7\<rparr> \<lparr>Group_x = 36, Group_y = 36\<rparr> = \<lparr>Group_x = 0, Group_y = 0\<rparr>"
  "affine_add 43 \<lparr>Group_x = 36, Group_y = 7\<rparr> \<lparr>Group_x = 1, Group_y = 36\<rparr> = \<lparr>Group_x = 1, Group_y = 7\<rparr>"
  "affine_add 43 \<lparr>Group_x = 6, Group_y = 36\<rparr> \<lparr>Group_x = 0, Group_y = 0\<rparr> = \<lparr>Group_x = 6, Group_y = 36\<rparr>"
  "affine_add 43 \<lparr>Group_x = 6, Group_y = 36\<rparr> \<lparr>Group_x = 1, Group_y = 7\<rparr> = \<lparr>Group_x = 6, Group_y = 7\<rparr>"
  "affine_add 43 \<lparr>Group_x = 6, Group_y = 36\<rparr> \<lparr>Group_x = 36, Group_y = 7\<rparr> = \<lparr>Group_x = 36, Group_y = 36\<rparr>"
  "affine_add 43 \<lparr>Group_x = 6, Group_y = 36\<rparr> \<lparr>Group_x = 6, Group_y = 36\<rparr> = \<lparr>Group_x = 1, Group_y = 36\<rparr>"
  "affine_add 43 \<lparr>Group_x = 6, Group_y = 36\<rparr> \<lparr>Group_x = 6, Group_y = 7\<rparr> = \<lparr>Group_x = 0, Group_y = 0\<rparr>"
  "affine_add 43 \<lparr>Group_x = 6, Group_y = 36\<rparr> \<lparr>Group_x = 36, Group_y = 36\<rparr> = \<lparr>Group_x = 1, Group_y = 7\<rparr>"
  "affine_add 43 \<lparr>Group_x = 6, Group_y = 36\<rparr> \<lparr>Group_x = 1, Group_y = 36\<rparr> = \<lparr>Group_x = 36, Group_y = 7\<rparr>"
  "affine_add 43 \<lparr>Group_x = 6, Group_y = 7\<rparr> \<lparr>Group_x = 0, Group_y = 0\<rparr> = \<lparr>Group_x = 6, Group_y = 7\<rparr>"
  "affine_add 43 \<lparr>Group_x = 6, Group_y = 7\<rparr> \<lparr>Group_x = 1, Group_y = 7\<rparr> = \<lparr>Group_x = 36, Group_y = 36\<rparr>"
  "affine_add 43 \<lparr>Group_x = 6, Group_y = 7\<rparr> \<lparr>Group_x = 36, Group_y = 7\<rparr> = \<lparr>Group_x = 1, Group_y = 36\<rparr>"
  "affine_add 43 \<lparr>Group_x = 6, Group_y = 7\<rparr> \<lparr>Group_x = 6, Group_y = 36\<rparr> = \<lparr>Group_x = 0, Group_y = 0\<rparr>"
  "affine_add 43 \<lparr>Group_x = 6, Group_y = 7\<rparr> \<lparr>Group_x = 6, Group_y = 7\<rparr> = \<lparr>Group_x = 1, Group_y = 7\<rparr>"
  "affine_add 43 \<lparr>Group_x = 6, Group_y = 7\<rparr> \<lparr>Group_x = 36, Group_y = 36\<rparr> = \<lparr>Group_x = 36, Group_y = 7\<rparr>"
  "affine_add 43 \<lparr>Group_x = 6, Group_y = 7\<rparr> \<lparr>Group_x = 1, Group_y = 36\<rparr> = \<lparr>Group_x = 6, Group_y = 36\<rparr>"
  "affine_add 43 \<lparr>Group_x = 36, Group_y = 36\<rparr> \<lparr>Group_x = 0, Group_y = 0\<rparr> = \<lparr>Group_x = 36, Group_y = 36\<rparr>"
  "affine_add 43 \<lparr>Group_x = 36, Group_y = 36\<rparr> \<lparr>Group_x = 1, Group_y = 7\<rparr> = \<lparr>Group_x = 1, Group_y = 36\<rparr>"
  "affine_add 43 \<lparr>Group_x = 36, Group_y = 36\<rparr> \<lparr>Group_x = 36, Group_y = 7\<rparr> = \<lparr>Group_x = 0, Group_y = 0\<rparr>"
  "affine_add 43 \<lparr>Group_x = 36, Group_y = 36\<rparr> \<lparr>Group_x = 6, Group_y = 36\<rparr> = \<lparr>Group_x = 1, Group_y = 7\<rparr>"
  "affine_add 43 \<lparr>Group_x = 36, Group_y = 36\<rparr> \<lparr>Group_x = 6, Group_y = 7\<rparr> = \<lparr>Group_x = 36, Group_y = 7\<rparr>"
  "affine_add 43 \<lparr>Group_x = 36, Group_y = 36\<rparr> \<lparr>Group_x = 36, Group_y = 36\<rparr> = \<lparr>Group_x = 6, Group_y = 36\<rparr>"
  "affine_add 43 \<lparr>Group_x = 36, Group_y = 36\<rparr> \<lparr>Group_x = 1, Group_y = 36\<rparr> = \<lparr>Group_x = 6, Group_y = 7\<rparr>"
  "affine_add 43 \<lparr>Group_x = 1, Group_y = 36\<rparr> \<lparr>Group_x = 0, Group_y = 0\<rparr> = \<lparr>Group_x = 1, Group_y = 36\<rparr>"
  "affine_add 43 \<lparr>Group_x = 1, Group_y = 36\<rparr> \<lparr>Group_x = 1, Group_y = 7\<rparr> = \<lparr>Group_x = 0, Group_y = 0\<rparr>"
  "affine_add 43 \<lparr>Group_x = 1, Group_y = 36\<rparr> \<lparr>Group_x = 36, Group_y = 7\<rparr> = \<lparr>Group_x = 1, Group_y = 7\<rparr>"
  "affine_add 43 \<lparr>Group_x = 1, Group_y = 36\<rparr> \<lparr>Group_x = 6, Group_y = 36\<rparr> = \<lparr>Group_x = 36, Group_y = 7\<rparr>"
  "affine_add 43 \<lparr>Group_x = 1, Group_y = 36\<rparr> \<lparr>Group_x = 6, Group_y = 7\<rparr> = \<lparr>Group_x = 6, Group_y = 36\<rparr>"
  "affine_add 43 \<lparr>Group_x = 1, Group_y = 36\<rparr> \<lparr>Group_x = 36, Group_y = 36\<rparr> = \<lparr>Group_x = 6, Group_y = 7\<rparr>"
  "affine_add 43 \<lparr>Group_x = 1, Group_y = 36\<rparr> \<lparr>Group_x = 1, Group_y = 36\<rparr> = \<lparr>Group_x = 36, Group_y = 36\<rparr>"
  by code_simp+

text \<open>
  The multiples of each of these points.
\<close>

lemma E43_multiples:
  "affine_scale 43 \<lparr>Group_x = 0, Group_y = 0\<rparr> 0 = \<lparr>Group_x = 0, Group_y = 0\<rparr>"
  "affine_scale 43 \<lparr>Group_x = 0, Group_y = 0\<rparr> 1 = \<lparr>Group_x = 0, Group_y = 0\<rparr>"
  "affine_scale 43 \<lparr>Group_x = 0, Group_y = 0\<rparr> 2 = \<lparr>Group_x = 0, Group_y = 0\<rparr>"
  "affine_scale 43 \<lparr>Group_x = 0, Group_y = 0\<rparr> 3 = \<lparr>Group_x = 0, Group_y = 0\<rparr>"
  "affine_scale 43 \<lparr>Group_x = 0, Group_y = 0\<rparr> 4 = \<lparr>Group_x = 0, Group_y = 0\<rparr>"
  "affine_scale 43 \<lparr>Group_x = 0, Group_y = 0\<rparr> 5 = \<lparr>Group_x = 0, Group_y = 0\<rparr>"
  "affine_scale 43 \<lparr>Group_x = 0, Group_y = 0\<rparr> 6 = \<lparr>Group_x = 0, Group_y = 0\<rparr>"
  "affine_scale 43 \<lparr>Group_x = 36, Group_y = 7\<rparr> 0 = \<lparr>Group_x = 0, Group_y = 0\<rparr>"
  "affine_scale 43 \<lparr>Group_x = 36, Group_y = 7\<rparr> 1 = \<lparr>Group_x = 36, Group_y = 7\<rparr>"
  "affine_scale 43 \<lparr>Group_x = 36, Group_y = 7\<rparr> 2 = \<lparr>Group_x = 6, Group_y = 7\<rparr>"
  "affine_scale 43 \<lparr>Group_x = 36, Group_y = 7\<rparr> 3 = \<lparr>Group_x = 1, Group_y = 36\<rparr>"
  "affine_scale 43 \<lparr>Group_x = 36, Group_y = 7\<rparr> 4 = \<lparr>Group_x = 1, Group_y = 7\<rparr>"
  "affine_scale 43 \<lparr>Group_x = 36, Group_y = 7\<rparr> 5 = \<lparr>Group_x = 6, Group_y = 36\<rparr>"
  "affine_scale 43 \<lparr>Group_x = 36, Group_y = 7\<rparr> 6 = \<lparr>Group_x = 36, Group_y = 36\<rparr>"
  "affine_scale 43 \<lparr>Group_x = 6, Group_y = 36\<rparr> 0 = \<lparr>Group_x = 0, Group_y = 0\<rparr>"
  "affine_scale 43 \<lparr>Group_x = 6, Group_y = 36\<rparr> 1 = \<lparr>Group_x = 6, Group_y = 36\<rparr>"
  "affine_scale 43 \<lparr>Group_x = 6, Group_y = 36\<rparr> 2 = \<lparr>Group_x = 1, Group_y = 36\<rparr>"
  "affine_scale 43 \<lparr>Group_x = 6, Group_y = 36\<rparr> 3 = \<lparr>Group_x = 36, Group_y = 7\<rparr>"
  "affine_scale 43 \<lparr>Group_x = 6, Group_y = 36\<rparr> 4 = \<lparr>Group_x = 36, Group_y = 36\<rparr>"
  "affine_scale 43 \<lparr>Group_x = 6, Group_y = 36\<rparr> 5 = \<lparr>Group_x = 1, Group_y = 7\<rparr>"
  "affine_scale 43 \<lparr>Group_x = 6, Group_y = 36\<rparr> 6 = \<lparr>Group_x = 6, Group_y = 7\<rparr>"
  "affine_scale 43 \<lparr>Group_x = 6, Group_y = 7\<rparr> 0 = \<lparr>Group_x = 0, Group_y = 0\<rparr>"
  "affine_scale 43 \<lparr>Group_x = 6, Group_y = 7\<rparr> 1 = \<lparr>Group_x = 6, Group_y = 7\<rparr>"
  "affine_scale 43 \<lparr>Group_x = 6, Group_y = 7\<rparr> 2 = \<lparr>Group_x = 1, Group_y = 7\<rparr>"
  "affine_scale 43 \<lparr>Group_x = 6, Group_y = 7\<rparr> 3 = \<lparr>Group_x = 36, Group_y = 36\<rparr>"
  "affine_scale 43 \<lparr>Group_x = 6, Group_y = 7\<rparr> 4 = \<lparr>Group_x = 36, Group_y = 7\<rparr>"
  "affine_scale 43 \<lparr>Group_x = 6, Group_y = 7\<rparr> 5 = \<lparr>Group_x = 1, Group_y = 36\<rparr>"
  "affine_scale 43 \<lparr>Group_x = 6, Group_y = 7\<rparr> 6 = \<lparr>Group_x = 6, Group_y = 36\<rparr>"
  "affine_scale 43 \<lparr>Group_x = 36, Group_y = 36\<rparr> 0 = \<lparr>Group_x = 0, Group_y = 0\<rparr>"
  "affine_scale 43 \<lparr>Group_x = 36, Group_y = 36\<rparr> 1 = \<lparr>Group_x = 36, Group_y = 36\<rparr>"
  "affine_scale 43 \<lparr>Group_x = 36, Group_y = 36\<rparr> 2 = \<lparr>Group_x = 6, Group_y = 36\<rparr>"
  "affine_scale 43 \<lparr>Group_x = 36, Group_y = 36\<rparr> 3 = \<lparr>Group_x = 1, Group_y = 7\<rparr>"
  "affine_scale 43 \<lparr>Group_x = 36, Group_y = 36\<rparr> 4 = \<lparr>Group_x = 1, Group_y = 36\<rparr>"
  "affine_scale 43 \<lparr>Group_x = 36, Group_y = 36\<rparr> 5 = \<lparr>Group_x = 6, Group_y = 7\<rparr>"
  "affine_scale 43 \<lparr>Group_x = 36, Group_y = 36\<rparr> 6 = \<lparr>Group_x = 36, Group_y = 7\<rparr>"
  "affine_scale 43 \<lparr>Group_x = 1, Group_y = 36\<rparr> 0 = \<lparr>Group_x = 0, Group_y = 0\<rparr>"
  "affine_scale 43 \<lparr>Group_x = 1, Group_y = 36\<rparr> 1 = \<lparr>Group_x = 1, Group_y = 36\<rparr>"
  "affine_scale 43 \<lparr>Group_x = 1, Group_y = 36\<rparr> 2 = \<lparr>Group_x = 36, Group_y = 36\<rparr>"
  "affine_scale 43 \<lparr>Group_x = 1, Group_y = 36\<rparr> 3 = \<lparr>Group_x = 6, Group_y = 7\<rparr>"
  "affine_scale 43 \<lparr>Group_x = 1, Group_y = 36\<rparr> 4 = \<lparr>Group_x = 6, Group_y = 36\<rparr>"
  "affine_scale 43 \<lparr>Group_x = 1, Group_y = 36\<rparr> 5 = \<lparr>Group_x = 36, Group_y = 7\<rparr>"
  "affine_scale 43 \<lparr>Group_x = 1, Group_y = 36\<rparr> 6 = \<lparr>Group_x = 1, Group_y = 7\<rparr>"
  by (simp_all add: affine_scale_def eval_nat_numeral E43_add)

lemma E43_G3: "\<forall>a\<in>{0..<Scalar_modulus E43}. \<forall>b\<in>{0..<Scalar_modulus E43}.
        Group_add E43 (Group_scale E43 (Group_generator E43) a) (Group_scale E43 (Group_generator E43) b) =
        Group_scale E43 (Group_generator E43) ((a + b) mod Scalar_modulus E43)"
  by (simp add: E43_sel int_range_7 E43_scale E43_add)

lemma E43_G4: "\<forall>d\<in>{0..<Scalar_modulus E43}. \<forall>e\<in>{0..<Scalar_modulus E43}.
        Group_scale E43 (Group_scale E43 (Group_generator E43) d) e =
        Group_scale E43 (Group_generator E43) ((e * d) mod Scalar_modulus E43)"
  by (simp add: E43_sel int_range_7 E43_scale E43_multiples)

lemma E43_Group_ok: "Group_ok E43"
  unfolding Group_ok_def
  using E43_G1 E43_G3 E43_G4 E43_G5 E43_G6 by (simp add: E43_sel)

lemma E43_root_6:
  "\<exists>r\<in>{0..<Field_modulus E43}. r * r mod Field_modulus E43 = (1 * 1 * 1 + 5) mod Field_modulus E43"
  unfolding Bex_int_range by code_simp

lemma E43_sqrt_6:
  "Field_sqrt E43 (Field_add E43 (Field_mul E43 (Field_mul E43 1 1) 1) (Field_of E43 5)) = Some 7"
  by code_simp

lemma E43_low_bit_7: "Field_toBits E43 7 ! 0 = True"
  by code_simp

lemma E43_neg_7: "Field_neg E43 7 = 36"
  by code_simp

lemma E43_generator_on_curve: "on_curve E43 \<lparr>Group_x = 1, Group_y = 7\<rparr>"
  by code_simp

lemma E43_toGroup_key_2:
  "toGroup E43 \<lparr>PublicKey_x = 36, PublicKey_isOdd = True\<rparr> = Inr \<lparr>Group_x = 36, Group_y = 7\<rparr>"
  by code_simp





section \<open>The claims\<close>




text \<open>
  C2. When \<open>x\<^sup>3 + 5\<close> has a square root in the field, \<open>toGroup\<close> takes the square root
  \<open>someY\<close> of \<open>ySquared = x\<cdot>x\<cdot>x + 5\<close> and returns the point \<open>(x, y)\<close> with \<open>y = someY\<close> when
  \<open>isOdd\<close> equals the low bit of \<open>someY\<close> and \<open>y = -someY\<close> otherwise.
\<close>

theorem toGroup_selects_root:
  assumes F: "Field_ok E" and S: "sqrt_ok E"
    and r: "\<exists>r\<in>{0..<Field_modulus E}. r * r mod Field_modulus E = (x * x * x + 5) mod Field_modulus E"
  shows "\<exists>someY.
           Field_sqrt E (Field_add E (Field_mul E (Field_mul E x x) x) (Field_of E 5)) = Some someY \<and>
           toGroup E (PublicKey_from x isOdd) =
             Inr \<lparr>Group_x = x,
                  Group_y = (if isOdd = Field_toBits E someY ! 0 then someY
                             else Field_neg E someY)\<rparr>"
proof -
  have n: "0 < Field_sizeInBits E" using F by (rule Field_ok_bits)
  from root_gives_Some [OF F S r] obtain z where
    z: "Field_sqrt E ((x * x * x + 5) mod Field_modulus E) = Some z"
      "0 \<le> z" "z < Field_modulus E" by blast
  have "toGroup E (PublicKey_from x isOdd) =
        Inr \<lparr>Group_x = x, Group_y = (if isOdd = odd z then z else (- z) mod Field_modulus E)\<rparr>"
    using toGroup_Some [of E "PublicKey_from x isOdd" z] z n by (simp add: PublicKey_from_def)
  with z(1) show ?thesis
    by (simp add: ySquared_eq toBits_low [OF n] Field_neg_def)
qed

theorem toGroup_selects_root_witness:
  "toGroup E43 (PublicKey_from 1 True) = Inr \<lparr>Group_x = 1, Group_y = 7\<rparr> \<and>
   toGroup E43 (PublicKey_from 1 False) = Inr \<lparr>Group_x = 1, Group_y = 36\<rparr>"
  using toGroup_selects_root [OF E43_Field_ok E43_sqrt_ok E43_root_6, of True]
    toGroup_selects_root [OF E43_Field_ok E43_sqrt_ok E43_root_6, of False]
  by (simp add: E43_sqrt_6 E43_low_bit_7 E43_neg_7)

text \<open>
  C3. Compression and decompression are inverse to each other: a point of the curve is
  recovered from its compressed form, and a compressed pair \<open>(x, isOdd)\<close> for which \<open>x\<^sup>3 + 5\<close>
  has a square root is recovered from its decompression. The second half uses that the
  curve has no point with \<open>y = 0\<close>.
\<close>

theorem compress_decompress_inverse:
  assumes F: "Field_ok E" and S: "sqrt_ok E" and C: "Curve_ok E"
  shows "(on_curve E P \<longrightarrow> toGroup E (fromGroup E P) = Inr P) \<and>
         (0 \<le> x \<and> x < Field_modulus E \<and>
          (\<exists>r\<in>{0..<Field_modulus E}.
              r * r mod Field_modulus E = (x * x * x + 5) mod Field_modulus E) \<longrightarrow>
          (\<exists>Q. toGroup E (PublicKey_from x isOdd) = Inr Q \<and>
                fromGroup E Q = PublicKey_from x isOdd))"
proof (intro conjI impI)
  assume "on_curve E P"
  with F S show "toGroup E (fromGroup E P) = Inr P" by (rule toGroup_fromGroup)
next
  let ?p = "Field_modulus E"
  assume A: "0 \<le> x \<and> x < ?p \<and> (\<exists>r\<in>{0..<?p}. r * r mod ?p = (x * x * x + 5) mod ?p)"
  have n: "0 < Field_sizeInBits E" using F by (rule Field_ok_bits)
  have od: "odd ?p" using F by (simp add: Field_ok_def)
  from A have x: "x \<in> {0..<?p}" by simp
  from A root_gives_Some [OF F S] obtain z where
    z: "Field_sqrt E ((x * x * x + 5) mod ?p) = Some z" "0 \<le> z" "z < ?p"
      "z * z mod ?p = (x * x * x + 5) mod ?p" by blast
  have "\<forall>x\<in>{0..<?p}. (x * x * x + 5) mod ?p \<noteq> 0" using C by (simp add: Curve_ok_def)
  from bspec [OF this x] have nz: "(x * x * x + 5) mod ?p \<noteq> 0" .
  have zpos: "0 < z" using z(2,4) nz by (cases "z = 0") auto
  let ?y = "if isOdd = odd z then z else (- z) mod ?p"
  have tg: "toGroup E (PublicKey_from x isOdd) = Inr \<lparr>Group_x = x, Group_y = ?y\<rparr>"
    using toGroup_Some [of E "PublicKey_from x isOdd" z] z n by (simp add: PublicKey_from_def)
  have "odd ?y = isOdd" using neg_mod_parity [OF od zpos z(3)] by auto
  then have "fromGroup E \<lparr>Group_x = x, Group_y = ?y\<rparr> = PublicKey_from x isOdd"
    by (simp add: fromGroup_def Let_def PublicKey_from_def toBits_low [OF n])
  with tg show "\<exists>Q. toGroup E (PublicKey_from x isOdd) = Inr Q \<and>
                fromGroup E Q = PublicKey_from x isOdd" by blast
qed

theorem compress_decompress_inverse_witness:
  "toGroup E43 (fromGroup E43 \<lparr>Group_x = 1, Group_y = 7\<rparr>) = Inr \<lparr>Group_x = 1, Group_y = 7\<rparr> \<and>
   (\<exists>Q. toGroup E43 (PublicKey_from 1 False) = Inr Q \<and>
        fromGroup E43 Q = PublicKey_from 1 False)"
  using compress_decompress_inverse [OF E43_Field_ok E43_sqrt_ok E43_Curve_ok,
      of "\<lparr>Group_x = 1, Group_y = 7\<rparr>" 1 False]
    E43_generator_on_curve E43_root_6
  by (simp add: E43_sel)

text \<open>
  C4. With \<open>point\<close> the decompression of the public key and \<open>e\<close> the recomputed challenge,
  \<open>verify\<close> computes the candidate \<open>-(e\<cdot>point) + s\<cdot>Generator\<close> and returns true exactly when the
  candidate's \<open>x\<close> equals \<open>r\<close> and the low bit of the candidate's \<open>y\<close> is false.
\<close>

theorem verify_accepts_iff:
  assumes "toGroup E publicKey = Inr point"
  shows "verify E sig publicKey msg =
         (let e = Scalar_fromBits E (Field_toBits E
                    (Poseidon_hash E (msg @ [Group_x point, Group_y point, Signature_r sig])));
              candidate = Group_add E (Group_neg E (Group_scale E point e))
                            (Group_scale E (Group_generator E) (Signature_s sig))
          in Inr (Group_x candidate = Signature_r sig \<and>
                  Field_toBits E (Group_y candidate) ! 0 = False))"
  using assms by (simp add: verify_def Let_def)

theorem verify_accepts_iff_witness:
  "verify E43 \<lparr>Signature_r = 6, Signature_s = 4\<rparr>
     \<lparr>PublicKey_x = 36, PublicKey_isOdd = True\<rparr> [1, 2, 3] = Inr True \<and>
   verify E43 \<lparr>Signature_r = 6, Signature_s = 5\<rparr>
     \<lparr>PublicKey_x = 36, PublicKey_isOdd = True\<rparr> [1, 2, 3] = Inr False"
  unfolding verify_accepts_iff [OF E43_toGroup_key_2]
  by code_simp











text \<open>
  C10. For every private key, message and nonce \<open>k'\<close>, \<open>Signature.create\<close> run with the nonce
  \<open>-k'\<close> gives the same result as with \<open>k'\<close>: the same \<open>r\<close> and the same \<open>s\<close>.
\<close>

theorem create_nonce_negation:
  assumes F: "Field_ok E" and G: "Group_ok E" and C: "Curve_ok E"
    and k: "0 \<le> kPrime" "kPrime < Scalar_modulus E"
  shows "create E priv msg (Scalar_neg E kPrime) = create E priv msg kPrime"
proof (cases "kPrime = 0")
  case True
  then show ?thesis by (simp add: Scalar_neg_def)
next
  case False
  let ?q = "Scalar_modulus E" and ?p = "Field_modulus E" and ?G = "Group_generator E"
  let ?R = "Group_scale E ?G kPrime"
  let ?k2 = "(- kPrime) mod ?q"
  have n: "0 < Field_sizeInBits E" using F by (rule Field_ok_bits)
  have od: "odd ?p" using F by (simp add: Field_ok_def)
  have k1: "1 \<le> kPrime" using False k by simp
  have k2: "?k2 = ?q - kPrime" using k1 k by (simp add: zmod_zminus1_eq_if)
  have kback: "(- ?k2) mod ?q = kPrime" using k by (simp add: mod_minus_eq)
  have on: "on_curve E ?R" using G k1 k(2) by (rule Group_ok_on_curve)
  then have xr: "Group_x ?R \<in> {0..<?p}" and y: "0 \<le> Group_y ?R" "Group_y ?R < ?p"
    and eq: "Group_y ?R * Group_y ?R mod ?p = (Group_x ?R * Group_x ?R * Group_x ?R + 5) mod ?p"
    by (simp_all add: on_curve_def)
  have "\<forall>x\<in>{0..<?p}. (x * x * x + 5) mod ?p \<noteq> 0" using C by (simp add: Curve_ok_def)
  from bspec [OF this xr] eq have ypos: "0 < Group_y ?R" using y by (cases "Group_y ?R = 0") auto
  have "Group_scale E ?G ?k2 = Group_neg E ?R" using G k by (simp add: Group_ok_neg)
  also have "\<dots> = \<lparr>Group_x = Group_x ?R, Group_y = (- Group_y ?R) mod ?p\<rparr>"
    using G k1 k(2) by (rule Group_ok_neg_y)
  finally have sc: "Group_scale E ?G ?k2 = \<lparr>Group_x = Group_x ?R, Group_y = (- Group_y ?R) mod ?p\<rparr>" .
  have par: "odd ((- Group_y ?R) mod ?p) \<longleftrightarrow> even (Group_y ?R)"
    using od ypos y(2) by (rule neg_mod_parity)
  show ?thesis
    by (cases "toGroup E (fromPrivateKey E priv)")
      (simp_all add: create_def Let_def Scalar_neg_def sc kback par toBits_low [OF n])
qed

theorem create_nonce_negation_witness:
  "create E43 \<lparr>PrivateKey_s = 2\<rparr> [1, 2, 3] 4 = create E43 \<lparr>PrivateKey_s = 2\<rparr> [1, 2, 3] 3"
  using create_nonce_negation [OF E43_Field_ok E43_Group_ok E43_Curve_ok,
      of 3 "\<lparr>PrivateKey_s = 2\<rparr>" "[1, 2, 3]"]
  by (simp add: E43_sel Scalar_neg_def)

end
